theory Spec2Isabelle
  imports Main
begin

section \<open>The Wise webapp server (server.js)\<close>

text \<open>
  A shallow embedding of \<^verbatim>\<open>src/server.js\<close>: a Node.js HTTP server with one JSON
  endpoint and a static file resolver. The program's own code is the port constant, the
  \<^verbatim>\<open>data\<close> and \<^verbatim>\<open>mimeTypes\<close> objects, \<^verbatim>\<open>serveStatic\<close> and the request handler. The
  built-in functions it calls (\<^verbatim>\<open>decodeURIComponent\<close>, \<^verbatim>\<open>path.join\<close>,
  \<^verbatim>\<open>path.extname\<close>, \<^verbatim>\<open>String.prototype.toLowerCase\<close>, \<^verbatim>\<open>JSON.stringify\<close>,
  \<^verbatim>\<open>Number.parseInt\<close>) are modelled after ECMA-262 and the Node.js documentation
  (POSIX flavour of \<^verbatim>\<open>path\<close>); the file system, the directory of the script, the
  working directory and the environment variable \<^verbatim>\<open>PORT\<close> are parameters.

  Strings. A JavaScript string is modelled by its UTF-8 encoding, a \<^typ>\<open>string\<close> of
  bytes; a \<^verbatim>\<open>Buffer\<close> is a \<^typ>\<open>string\<close> of bytes as well. Strings with lone surrogates
  have no such encoding and are outside the model; no string literal of the program has
  one.
\<close>

subsection \<open>Exceptions and errors\<close>

datatype js_error =
  URIError                \<comment> \<open>thrown by \<^verbatim>\<open>decodeURIComponent\<close>: "URI malformed"\<close>
  | InvalidArgValue       \<comment> \<open>\<^verbatim>\<open>TypeError [ERR_INVALID_ARG_VALUE]\<close>: a path with a NUL character\<close>
  | BadPort               \<comment> \<open>\<^verbatim>\<open>RangeError [ERR_SOCKET_BAD_PORT]\<close>\<close>
  | SystemError string    \<comment> \<open>an I/O error by its code: ENOENT, EACCES, EISDIR, ...\<close>

subsection \<open>Built-in: decodeURIComponent\<close>

text \<open>
  ECMA-262, Decode (string, preserveEscapeSet) with the empty preserve set. A code unit
  other than \<^verbatim>\<open>%\<close> is copied; \<^verbatim>\<open>%XX\<close> gives the octet B; an octet below 0x80 is
  that character; otherwise B starts a UTF-8 sequence of n octets (n the number of leading
  1 bits of B), each following one written \<^verbatim>\<open>%XX\<close>, and the sequence must be the UTF-8
  encoding of a code point. Every failure throws URIError.
\<close>

definition hexval :: "char \<Rightarrow> nat option" where
  "hexval c = (let n = (of_char c :: nat) in
     if 48 \<le> n \<and> n \<le> 57 then Some (n - 48)
     else if 65 \<le> n \<and> n \<le> 70 then Some (n - 55)
     else if 97 \<le> n \<and> n \<le> 102 then Some (n - 87)
     else None)"

definition ParseHexOctet :: "char \<Rightarrow> char \<Rightarrow> nat option" where
  "ParseHexOctet a b =
     (case hexval a of
        None \<Rightarrow> None
      | Some x \<Rightarrow> (case hexval b of None \<Rightarrow> None | Some y \<Rightarrow> Some (16 * x + y)))"

definition leading_ones :: "nat \<Rightarrow> nat" where
  "leading_ones B =
     (if B < 0x80 then 0 else if B < 0xC0 then 1 else if B < 0xE0 then 2
      else if B < 0xF0 then 3 else if B < 0xF8 then 4 else 5)"

definition is_continuation :: "nat \<Rightarrow> bool" where
  "is_continuation b = (0x80 \<le> b \<and> b \<le> 0xBF)"

text \<open>Well-formed UTF-8 sequences of two to four octets (Unicode, table 3-7).\<close>

fun valid_utf8 :: "nat list \<Rightarrow> bool" where
  "valid_utf8 [a, b] = (0xC2 \<le> a \<and> a \<le> 0xDF \<and> is_continuation b)"
| "valid_utf8 [a, b, c] =
     (is_continuation c \<and>
      (if a = 0xE0 then 0xA0 \<le> b \<and> b \<le> 0xBF
       else if a = 0xED then 0x80 \<le> b \<and> b \<le> 0x9F
       else 0xE1 \<le> a \<and> a \<le> 0xEF \<and> is_continuation b))"
| "valid_utf8 [a, b, c, d] =
     (is_continuation c \<and> is_continuation d \<and>
      (if a = 0xF0 then 0x90 \<le> b \<and> b \<le> 0xBF
       else if a = 0xF4 then 0x80 \<le> b \<and> b \<le> 0x8F
       else 0xF1 \<le> a \<and> a \<le> 0xF3 \<and> is_continuation b))"
| "valid_utf8 _ = False"

text \<open>The j escapes \<^verbatim>\<open>%XX\<close> that must follow a leading octet, and the rest of the string.\<close>

fun continuation_octets :: "nat \<Rightarrow> string \<Rightarrow> (nat list \<times> string) option" where
  "continuation_octets 0 s = Some ([], s)"
| "continuation_octets (Suc j) (p # a # b # s) =
     (if p = CHR ''%'' then
        (case ParseHexOctet a b of
           None \<Rightarrow> None
         | Some B \<Rightarrow>
             (case continuation_octets j s of
                None \<Rightarrow> None
              | Some (bs, r) \<Rightarrow> Some (B # bs, r)))
      else None)"
| "continuation_octets (Suc j) s = None"

lemma continuation_octets_length:
  "continuation_octets j s = Some (bs, r) \<Longrightarrow> length r \<le> length s"
proof (induction j s arbitrary: bs r rule: continuation_octets.induct)
  case (2 j p a b s)
  from "2.prems" obtain bs' where "continuation_octets j s = Some (bs', r)"
    by (auto split: if_splits option.splits)
  with "2.IH" have "length r \<le> length s"
    using "2.prems" by (auto split: if_splits option.splits)
  then show ?case by simp
qed simp_all

function Decode :: "string \<Rightarrow> js_error + string" where
  "Decode [] = Inr []"
| "Decode (c # s) =
     (if c \<noteq> CHR ''%'' then
        (case Decode s of Inl e \<Rightarrow> Inl e | Inr r \<Rightarrow> Inr (c # r))
      else
        (case s of
           a # b # s' \<Rightarrow>
             (case ParseHexOctet a b of
                None \<Rightarrow> Inl URIError
              | Some B \<Rightarrow>
                  (let n = leading_ones B in
                   if n = 0 then
                     (case Decode s' of Inl e \<Rightarrow> Inl e | Inr r \<Rightarrow> Inr (char_of B # r))
                   else if n = 1 \<or> 4 < n then Inl URIError
                   else
                     (case continuation_octets (n - 1) s' of
                        None \<Rightarrow> Inl URIError
                      | Some (bs, s'') \<Rightarrow>
                          if valid_utf8 (B # bs) then
                            (case Decode s'' of
                               Inl e \<Rightarrow> Inl e
                             | Inr r \<Rightarrow> Inr (map char_of (B # bs) @ r))
                          else Inl URIError)))
         | _ \<Rightarrow> Inl URIError))"
  by pat_completeness auto
termination
  by (relation "measure length") (auto dest: continuation_octets_length)

definition decodeURIComponent :: "string \<Rightarrow> js_error + string" where
  "decodeURIComponent s = Decode s"

subsection \<open>Built-in: path.join and path.extname (POSIX)\<close>

fun split_on :: "char \<Rightarrow> string \<Rightarrow> string list" where
  "split_on sep [] = [[]]"
| "split_on sep (c # cs) =
     (if c = sep then [] # split_on sep cs
      else (case split_on sep cs of [] \<Rightarrow> [[c]] | x # xs \<Rightarrow> (c # x) # xs))"

fun intercalate :: "string \<Rightarrow> string list \<Rightarrow> string" where
  "intercalate sep [] = []"
| "intercalate sep [x] = x"
| "intercalate sep (x # y # ys) = x @ sep @ intercalate sep (y # ys)"

text \<open>
  Node's \<^verbatim>\<open>normalizeString\<close>, segment by segment: empty segments and \<^verbatim>\<open>.\<close> are
  dropped; \<^verbatim>\<open>..\<close> removes the segment before it, unless there is none or it is \<^verbatim>\<open>..\<close>
  itself, in which case it is kept for a relative path and dropped for an absolute one.
  \<open>res\<close> holds the segments kept so far.
\<close>

fun normalizeString :: "bool \<Rightarrow> string list \<Rightarrow> string list \<Rightarrow> string list" where
  "normalizeString allowAboveRoot res [] = res"
| "normalizeString allowAboveRoot res (seg # segs) =
     (if seg = [] \<or> seg = ''.'' then normalizeString allowAboveRoot res segs
      else if seg = ''..'' then
        (if res \<noteq> [] \<and> last res \<noteq> ''..''
           then normalizeString allowAboveRoot (butlast res) segs
         else if allowAboveRoot
           then normalizeString allowAboveRoot (res @ [''..'']) segs
         else normalizeString allowAboveRoot res segs)
      else normalizeString allowAboveRoot (res @ [seg]) segs)"

definition path_normalize :: "string \<Rightarrow> string" where
  "path_normalize p =
     (if p = [] then ''.''
      else
        let isAbsolute = (hd p = CHR ''/'');
            trailingSeparator = (last p = CHR ''/'');
            q = intercalate ''/'' (normalizeString (\<not> isAbsolute) [] (split_on CHR ''/'' p))
        in if q = [] then (if isAbsolute then ''/'' else if trailingSeparator then ''./'' else ''.'')
           else (if isAbsolute then ''/'' else []) @ q @ (if trailingSeparator then ''/'' else []))"

definition path_join :: "string list \<Rightarrow> string" where
  "path_join args =
     (let joined = intercalate ''/'' (filter (\<lambda>arg. arg \<noteq> []) args)
      in if joined = [] then ''.'' else path_normalize joined)"

text \<open>
  \<^verbatim>\<open>path.extname\<close>: in the last component of the path (trailing slashes ignored), the
  text from the last \<^verbatim>\<open>.\<close> on; empty when the component has no \<^verbatim>\<open>.\<close>, when its only
  \<^verbatim>\<open>.\<close> is its first character, or when the component is \<^verbatim>\<open>..\<close>.
\<close>

definition basename_of :: "string \<Rightarrow> string" where
  "basename_of p =
     rev (takeWhile (\<lambda>c. c \<noteq> CHR ''/'') (dropWhile (\<lambda>c. c = CHR ''/'') (rev p)))"

definition path_extname :: "string \<Rightarrow> string" where
  "path_extname p =
     (let base = basename_of p;
          after = rev (takeWhile (\<lambda>c. c \<noteq> CHR ''.'') (rev base));
          upto = dropWhile (\<lambda>c. c \<noteq> CHR ''.'') (rev base)
      in if upto = [] \<or> tl upto = [] \<or> base = ''..'' then [] else CHR ''.'' # after)"

subsection \<open>Built-in: String.prototype.toLowerCase\<close>

text \<open>
  The letters A to Z are mapped to a to z. JavaScript also maps letters outside ASCII;
  the model leaves their bytes as they are. The two agree on whether the result is a key
  of \<open>mimeTypes\<close>: the only character outside A to Z whose lower case is an ASCII
  letter is the Kelvin sign (to k), and no key contains a k.
\<close>

definition toLowerCase_char :: "char \<Rightarrow> char" where
  "toLowerCase_char c =
     (let n = (of_char c :: nat) in if 65 \<le> n \<and> n \<le> 90 then char_of (n + 32) else c)"

definition toLowerCase :: "string \<Rightarrow> string" where
  "toLowerCase s = map toLowerCase_char s"

subsection \<open>Built-in: JSON.stringify\<close>

datatype json = JString string | JArray "json list" | JObject "(string \<times> json) list"

definition hex_digit :: "nat \<Rightarrow> char" where
  "hex_digit d = (if d < 10 then char_of (48 + d) else char_of (87 + d))"

definition UnicodeEscape :: "nat \<Rightarrow> string" where
  "UnicodeEscape n =
     [CHR 0x5C, CHR ''u'', hex_digit (n div 4096 mod 16), hex_digit (n div 256 mod 16),
      hex_digit (n div 16 mod 16), hex_digit (n mod 16)]"

definition QuoteJSONChar :: "char \<Rightarrow> string" where
  "QuoteJSONChar c =
     (if c = CHR 0x08 then [CHR 0x5C, CHR ''b'']
      else if c = CHR 0x09 then [CHR 0x5C, CHR ''t'']
      else if c = CHR 0x0A then [CHR 0x5C, CHR ''n'']
      else if c = CHR 0x0C then [CHR 0x5C, CHR ''f'']
      else if c = CHR 0x0D then [CHR 0x5C, CHR ''r'']
      else if c = CHR 0x22 then [CHR 0x5C, CHR 0x22]
      else if c = CHR 0x5C then [CHR 0x5C, CHR 0x5C]
      else if (of_char c :: nat) < 0x20 then UnicodeEscape (of_char c)
      else [c])"

definition QuoteJSONString :: "string \<Rightarrow> string" where
  "QuoteJSONString s = [CHR 0x22] @ concat (map QuoteJSONChar s) @ [CHR 0x22]"

text \<open>An object's properties are serialized in the order of their creation.\<close>

fun JSON_stringify :: "json \<Rightarrow> string" where
  "JSON_stringify (JString s) = QuoteJSONString s"
| "JSON_stringify (JArray xs) = ''['' @ intercalate '','' (map JSON_stringify xs) @ '']''"
| "JSON_stringify (JObject kvs) =
     ''{'' @ intercalate '',''
        (map (\<lambda>(k, v). QuoteJSONString k @ '':'' @ JSON_stringify v) kvs) @ ''}''"

subsection \<open>Built-in: Number.parseInt with radix 10\<close>

text \<open>
  ECMA-262, parseInt (string, 10): leading white space is removed, then an optional sign,
  then the longest prefix of decimal digits is read; with no digit the result is NaN.
  White space is WhiteSpace and LineTerminator of ECMA-262, here in UTF-8.

  The result is a Number, a double: the integer read is rounded to the nearest double,
  ties to the even significand, and to an infinity from \<open>2 ^ 1024 - 2 ^ 970\<close> on.
  Integers up to \<open>2 ^ 53\<close> are exact. (ECMA-262 lets an implementation replace the
  digits after the twentieth by zeros; V8, the engine of Node.js, rounds the number as it
  is written.) The two zeros are not told apart: both are falsy.
\<close>

datatype js_number = NaN | Finite int | PosInfinity | NegInfinity

definition StrWhiteSpaceChar :: "string list" where
  "StrWhiteSpaceChar =
     [[CHR 0x09], [CHR 0x0A], [CHR 0x0B], [CHR 0x0C], [CHR 0x0D], [CHR 0x20],
      [CHR 0xC2, CHR 0xA0], [CHR 0xE1, CHR 0x9A, CHR 0x80],
      [CHR 0xE2, CHR 0x80, CHR 0x80], [CHR 0xE2, CHR 0x80, CHR 0x81],
      [CHR 0xE2, CHR 0x80, CHR 0x82], [CHR 0xE2, CHR 0x80, CHR 0x83],
      [CHR 0xE2, CHR 0x80, CHR 0x84], [CHR 0xE2, CHR 0x80, CHR 0x85],
      [CHR 0xE2, CHR 0x80, CHR 0x86], [CHR 0xE2, CHR 0x80, CHR 0x87],
      [CHR 0xE2, CHR 0x80, CHR 0x88], [CHR 0xE2, CHR 0x80, CHR 0x89],
      [CHR 0xE2, CHR 0x80, CHR 0x8A], [CHR 0xE2, CHR 0x80, CHR 0xA8],
      [CHR 0xE2, CHR 0x80, CHR 0xA9], [CHR 0xE2, CHR 0x80, CHR 0xAF],
      [CHR 0xE2, CHR 0x81, CHR 0x9F], [CHR 0xE3, CHR 0x80, CHR 0x80],
      [CHR 0xEF, CHR 0xBB, CHR 0xBF]]"

definition leading_white_space :: "string \<Rightarrow> string option" where
  "leading_white_space s = List.find (\<lambda>w. take (length w) s = w) StrWhiteSpaceChar"

lemma leading_white_space_drop:
  "leading_white_space s = Some w \<Longrightarrow> length (drop (length w) s) < length s"
proof -
  assume "leading_white_space s = Some w"
  then have w: "w \<in> set StrWhiteSpaceChar" and t: "take (length w) s = w"
    by (auto simp: leading_white_space_def find_Some_iff)
  from w have "w \<noteq> []"
    by (auto simp: StrWhiteSpaceChar_def)
  with t have "s \<noteq> []"
    by auto
  with \<open>w \<noteq> []\<close> show ?thesis
    by simp
qed

function TrimStart :: "string \<Rightarrow> string" where
  "TrimStart s =
     (case leading_white_space s of
        None \<Rightarrow> s
      | Some w \<Rightarrow> TrimStart (drop (length w) s))"
  by pat_completeness auto
termination
  by (relation "measure length") (auto dest: leading_white_space_drop)

declare TrimStart.simps [simp del]

definition is_digit :: "char \<Rightarrow> bool" where
  "is_digit c = (48 \<le> (of_char c :: nat) \<and> (of_char c :: nat) \<le> 57)"

definition digits_value :: "string \<Rightarrow> int" where
  "digits_value ds = foldl (\<lambda>acc d. 10 * acc + (int (of_char d) - 48)) 0 ds"

text \<open>The number of binary digits of a positive integer.\<close>

function bit_length :: "int \<Rightarrow> nat" where
  "bit_length n = (if n \<le> 0 then 0 else Suc (bit_length (n div 2)))"
  by pat_completeness auto
termination
  by (relation "measure nat") auto

declare bit_length.simps [simp del]

text \<open>
  The double nearest to an integer \<open>n \<ge> 0\<close>, \<open>None\<close> for an infinity: beyond 53 binary
  digits the lowest \<open>k\<close> digits are rounded away, to the even significand at a tie.
\<close>

definition round_to_double :: "int \<Rightarrow> int option" where
  "round_to_double n =
     (if n < 2 ^ 53 then Some n
      else
        let k = bit_length n - 53;
            q = n div 2 ^ k;
            r = n mod 2 ^ k;
            half = 2 ^ (k - 1);
            q' = (if half < r \<or> (r = half \<and> odd q) then q + 1 else q);
            m = q' * 2 ^ k
        in if m < 2 ^ 1024 then Some m else None)"

definition number_of_int :: "int \<Rightarrow> js_number" where
  "number_of_int i =
     (case round_to_double \<bar>i\<bar> of
        None \<Rightarrow> if i < 0 then NegInfinity else PosInfinity
      | Some m \<Rightarrow> Finite (if i < 0 then - m else m))"

definition sign_of :: "string \<Rightarrow> int" where
  "sign_of S = (if S \<noteq> [] \<and> hd S = CHR ''-'' then - 1 else 1)"

definition strip_sign :: "string \<Rightarrow> string" where
  "strip_sign S = (if S \<noteq> [] \<and> (hd S = CHR ''+'' \<or> hd S = CHR ''-'') then tl S else S)"

definition parseInt10 :: "string \<Rightarrow> js_number" where
  "parseInt10 inputString =
     (let S = TrimStart inputString;
          sign = sign_of S;
          S = strip_sign S;
          Z = takeWhile is_digit S
      in if Z = [] then NaN else number_of_int (sign * digits_value Z))"

subsection \<open>The environment of the process\<close>

text \<open>
  What the program reads from outside: \<^verbatim>\<open>__dirname\<close> (the directory that holds
  server.js), the working directory of the process (which the program never reads),
  \<^verbatim>\<open>process.env.PORT\<close>, and the file system, given by what \<^verbatim>\<open>fs.readFile\<close> hands
  its callback for a path: an error or the bytes of the file.
\<close>

record env =
  dirname :: string
  cwd :: string
  env_PORT :: "string option"
  files :: "string \<Rightarrow> js_error + string"

record request =
  url :: "string option"

text \<open>
  What a call of the request handler does, in order: calls of \<^verbatim>\<open>fs.readFile\<close>,
  \<^verbatim>\<open>res.writeHead\<close> and \<^verbatim>\<open>res.end\<close>, and an exception that leaves the handler
  uncaught.
\<close>

datatype effect =
  FsReadFile string
  | WriteHead nat "(string \<times> string) list"
  | ResEnd string
  | Throw js_error

subsection \<open>The program: port\<close>

text \<open>
  \<^verbatim>\<open>const port = Number.parseInt(process.env.PORT, 10) || 3000;\<close>
  An unset variable is \<^verbatim>\<open>undefined\<close>, which parseInt reads as the string
  "undefined". NaN and 0 are falsy.
\<close>

definition port :: "env \<Rightarrow> js_number" where
  "port e =
     (case parseInt10 (case env_PORT e of None \<Rightarrow> ''undefined'' | Some s \<Rightarrow> s) of
        NaN \<Rightarrow> Finite 3000
      | Finite n \<Rightarrow> if n = 0 then Finite 3000 else Finite n
      | PosInfinity \<Rightarrow> PosInfinity
      | NegInfinity \<Rightarrow> NegInfinity)"

text \<open>
  \<^verbatim>\<open>server.listen(port, ...)\<close>: Node throws for a port that is not an integer in
  0..65535 and otherwise asks the system for that port.
\<close>

definition server_listen :: "env \<Rightarrow> js_error + int" where
  "server_listen e =
     (case port e of
        Finite n \<Rightarrow> if 0 \<le> n \<and> n < 65536 then Inr n else Inl BadPort
      | _ \<Rightarrow> Inl BadPort)"

subsection \<open>The program: data and mimeTypes\<close>

definition nb_hyphen :: string where
  "nb_hyphen = [CHR 0xE2, CHR 0x80, CHR 0x91]"  \<comment> \<open>U+2011, non-breaking hyphen\<close>

definition em_dash :: string where
  "em_dash = [CHR 0xE2, CHR 0x80, CHR 0x94]"  \<comment> \<open>U+2014, em dash\<close>

definition data :: json where
  "data = JObject
    [(''problem'', JString
       (''Moving money across borders with traditional banks is slow, '' @
        ''costly and lacks transparency. Exchange rates often include '' @
        ''hidden mark'' @ nb_hyphen @
        ''ups and customers rarely know the full cost upfront.'')),
     (''solution'', JArray
       [JString (''Open a single account to hold and convert more than 40 currencies.''),
        JString (''Send payments to over 70 countries using the mid'' @
                 nb_hyphen @ ''market rate and low fees.''),
        JString (''Spend or withdraw cash in 160+ countries with a Wise card; '' @
                 ''freeze and unfreeze the card in'' @ nb_hyphen @ ''app.''),
        JString (''Transfers are protected with two'' @ nb_hyphen @
                 ''factor authentication, encryption and biometrics.'')]),
     (''coreFeatures'', JArray
       [JString (''Multi'' @ nb_hyphen @
                 ''currency wallet with instant conversion between 40+ currencies.''),
        JString (''Low, transparent transfer fees starting from around 0.43%.''),
        JString (''Fast transfers '' @ em_dash @
                 '' over 65% arrive in under 20 seconds.''),
        JString (''Local account details for 9 currencies so you can get paid like '' @
                 ''a local.''),
        JString (''Wise card for global spending and cash withdrawals with '' @
                 ''automatic currency conversion.''),
        JString (''In'' @ nb_hyphen @
                 ''app dashboard to track balances, transfers and transaction '' @
                 ''history.'')]),
     (''targetUsers'', JArray
       [JString (''Freelancers and remote workers paid in multiple currencies.''),
        JString (''Expats and travellers managing money abroad.''),
        JString (''Small businesses paying overseas suppliers and contractors.''),
        JString (''Individuals sending money to family in other countries.'')]),
     (''valueProposition'', JArray
       [JString (''Real mid'' @ nb_hyphen @
                 ''market exchange rates with no hidden mark'' @ nb_hyphen @
                 ''ups.''),
        JString (''Faster transfers than traditional banks '' @ em_dash @
                 '' many arrive instantly.''),
        JString (''Transparent pricing displayed before you send.''),
        JString (''Local account details make receiving payments simple and often '' @
                 ''free.''),
        JString (''Regulated money services business, using two'' @ nb_hyphen @
                 ''factor authentication and encryption.'')]),
     (''successMetrics'', JArray
       [JString (''Growth in transfer volume and repeat transactions.''),
        JString (''Retention of active users and frequency of app usage.''),
        JString (''App Store rating (currently 4.7/5 with 91k+ reviews).''),
        JString (''Expansion of the customer base (16 million+ users worldwide).'')]),
     (''techStack'', JArray
       [JString (''Native apps for iOS and Android devices.''),
        JString (''Back'' @ nb_hyphen @
                 ''end integrations with global banking networks and payment rails.''),
        JString (''Security features including two'' @ nb_hyphen @
                 ''factor authentication, encryption and biometric logins.''),
        JString (''Wise operates as a Money Service Business rather than a bank, '' @
                 ''safeguarding funds through partner banks.'')]),
     (''monetization'', JArray
       [JString (''Small flat fees and a low margin on currency conversion.''),
        JString (''Interest on USD balances for eligible US customers.'')])]"

definition mimeTypes :: "(string \<times> string) list" where
  "mimeTypes =
     [(''.html'', ''text/html; charset=UTF-8''),
      (''.css'', ''text/css; charset=UTF-8''),
      (''.js'', ''text/javascript; charset=UTF-8''),
      (''.json'', ''application/json; charset=UTF-8''),
      (''.png'', ''image/png''),
      (''.jpg'', ''image/jpeg''),
      (''.jpeg'', ''image/jpeg''),
      (''.svg'', ''image/svg+xml'')]"

text \<open>
  The two objects are bound by \<^verbatim>\<open>const\<close>, but a JavaScript object can be changed
  through its binding. They are the state of the process: the handler reads them from the
  state and returns the state it leaves.
\<close>

record globals =
  g_data :: json
  g_mimeTypes :: "(string \<times> string) list"

definition initial_globals :: globals where
  "initial_globals = \<lparr>g_data = data, g_mimeTypes = mimeTypes\<rparr>"

subsection \<open>The program: serveStatic\<close>

text \<open>
  \<^verbatim>\<open>mimeTypes[ext] || 'application/octet-stream'\<close>: a missing key gives
  \<^verbatim>\<open>undefined\<close>; \<^verbatim>\<open>undefined\<close> and the empty string are falsy.
\<close>

definition mimeType_of :: "globals \<Rightarrow> string \<Rightarrow> string" where
  "mimeType_of g ext =
     (case map_of (g_mimeTypes g) ext of
        None \<Rightarrow> ''application/octet-stream''
      | Some m \<Rightarrow> if m = [] then ''application/octet-stream'' else m)"

text \<open>
  The callback receives either \<open>err\<close> or \<open>content\<close> and \<open>mimeType\<close>.
  \<^verbatim>\<open>fs.readFile\<close> checks its path before any I/O and throws for a string with a NUL
  character; every other outcome reaches the callback.
\<close>

definition serveStatic ::
  "env \<Rightarrow> globals \<Rightarrow> string \<Rightarrow> (js_error + string \<times> string \<Rightarrow> effect list) \<Rightarrow> effect list"
where
  "serveStatic e g filePath callback =
     FsReadFile filePath #
       (if CHR 0x00 \<in> set filePath then [Throw InvalidArgValue]
        else
          (case files e filePath of
             Inl err \<Rightarrow> callback (Inl err)
           | Inr content \<Rightarrow>
               (let ext = toLowerCase (path_extname filePath);
                    mimeType = mimeType_of g ext
                in callback (Inr (content, mimeType)))))"

subsection \<open>The program: the request handler\<close>

text \<open>Lines 115 to 118: \<^verbatim>\<open>req.url || '/index.html'\<close>, then the root path.\<close>

definition urlPath_of :: "request \<Rightarrow> string" where
  "urlPath_of req =
     (let urlPath = (case url req of
                       None \<Rightarrow> ''/index.html''
                     | Some u \<Rightarrow> if u = [] then ''/index.html'' else u)
      in if urlPath = ''/'' \<or> urlPath = [] then ''/index.html'' else urlPath)"

definition handler :: "env \<Rightarrow> request \<Rightarrow> globals \<Rightarrow> effect list \<times> globals" where
  "handler e req g =
     (if url req = Some ''/api/data'' then
        (let json = JSON_stringify (g_data g)
         in ([WriteHead 200 [(''Content-Type'', ''application/json; charset=UTF-8'')],
              ResEnd json], g))
      else
        (let urlPath = urlPath_of req
         in case decodeURIComponent urlPath of
              Inl err \<Rightarrow> ([Throw err], g)
            | Inr decoded \<Rightarrow>
                (let safePath = path_join [dirname e, decoded]
                 in (serveStatic e g safePath
                       (\<lambda>r. case r of
                          Inl err \<Rightarrow>
                            [WriteHead 404 [(''Content-Type'', ''text/plain; charset=UTF-8'')],
                             ResEnd ''404 Not Found'']
                        | Inr (content, mimeType) \<Rightarrow>
                            [WriteHead 200 [(''Content-Type'', mimeType)],
                             ResEnd content]), g))))"

subsection \<open>The process\<close>




subsection \<open>Containment in a directory\<close>

text \<open>
  A path lies inside the directory \<open>root\<close> when it is \<open>root\<close> itself or starts with
  \<open>root\<close> and a slash. It is used to state where a resolved path lies; the program has
  no such check.
\<close>

definition inside_root :: "string \<Rightarrow> string \<Rightarrow> bool" where
  "inside_root root p = (p = root \<or> take (length root + 1) p = root @ ''/'')"

subsection \<open>An example environment\<close>

text \<open>
  A file system with an index document, a style sheet, a file outside the directory of
  the script, and paths whose read fails for different reasons.
\<close>

definition example_files :: "string \<Rightarrow> js_error + string" where
  "example_files p =
     (if p = ''/srv/app/index.html'' then Inr ''<h1>Wise</h1>''
      else if p = ''/srv/app/style.CSS'' then Inr ''body {}''
      else if p = ''/etc/passwd'' then Inr ''root:x:0:0''
      else if p = ''/srv/app'' then Inl (SystemError ''EISDIR'')
      else if p = ''/srv/app/secret.key'' then Inl (SystemError ''EACCES'')
      else Inl (SystemError ''ENOENT''))"

definition example_env :: env where
  "example_env =
     \<lparr>dirname = ''/srv/app'', cwd = ''/tmp'', env_PORT = None, files = example_files\<rparr>"

section \<open>Properties\<close>

subsection \<open>The branches of the handler\<close>

lemma handler_api:
  "url req = Some ''/api/data'' \<Longrightarrow>
   handler e req g =
     ([WriteHead 200 [(''Content-Type'', ''application/json; charset=UTF-8'')],
       ResEnd (JSON_stringify (g_data g))], g)"
  by (simp add: handler_def)

lemma handler_throw:
  "url req \<noteq> Some ''/api/data'' \<Longrightarrow> decodeURIComponent (urlPath_of req) = Inl err \<Longrightarrow>
   handler e req g = ([Throw err], g)"
  by (simp add: handler_def)

lemma handler_nul:
  "url req \<noteq> Some ''/api/data'' \<Longrightarrow> decodeURIComponent (urlPath_of req) = Inr d \<Longrightarrow>
   CHR 0x00 \<in> set (path_join [dirname e, d]) \<Longrightarrow>
   handler e req g = ([FsReadFile (path_join [dirname e, d]), Throw InvalidArgValue], g)"
  by (simp add: handler_def serveStatic_def)


lemma handler_found:
  "url req \<noteq> Some ''/api/data'' \<Longrightarrow> decodeURIComponent (urlPath_of req) = Inr d \<Longrightarrow>
   CHR 0x00 \<notin> set (path_join [dirname e, d]) \<Longrightarrow>
   files e (path_join [dirname e, d]) = Inr content \<Longrightarrow>
   handler e req g =
     ([FsReadFile (path_join [dirname e, d]),
       WriteHead 200
         [(''Content-Type'', mimeType_of g (toLowerCase (path_extname (path_join [dirname e, d]))))],
       ResEnd content], g)"
  by (simp add: handler_def serveStatic_def Let_def)



lemma data_keys:
  "\<exists>kvs. data = JObject kvs \<and> map fst kvs = [''problem'', ''solution'', ''coreFeatures'', ''targetUsers'',
        ''valueProposition'', ''successMetrics'', ''techStack'', ''monetization'']"
  by (simp add: data_def)

lemma urlPath_of_root:
  "url req = None \<or> url req = Some [] \<or> url req = Some ''/'' \<Longrightarrow> urlPath_of req = ''/index.html''"
  by (auto simp: urlPath_of_def)

lemma urlPath_of_other:
  "url req = Some u \<Longrightarrow> u \<noteq> [] \<Longrightarrow> u \<noteq> ''/'' \<Longrightarrow> urlPath_of req = u"
  by (simp add: urlPath_of_def)

lemma handler_cong_urlPath:
  assumes "url req \<noteq> Some ''/api/data''" and "url req' \<noteq> Some ''/api/data''"
    and "urlPath_of req = urlPath_of req'"
  shows "handler e req g = handler e req' g"
  using assms by (simp add: handler_def)

lemma handler_static:
  "url req \<noteq> Some ''/api/data'' \<Longrightarrow> decodeURIComponent (urlPath_of req) = Inr d \<Longrightarrow>
   \<exists>rest. fst (handler e req g) = FsReadFile (path_join [dirname e, d]) # rest
      \<and> (\<forall>p. FsReadFile p \<notin> set rest)"
  by (auto simp: handler_def serveStatic_def Let_def split: sum.splits)

lemma mimeType_of_initial:
  "mimeType_of initial_globals ext =
     (if ext = ''.html'' then ''text/html; charset=UTF-8''
      else if ext = ''.css'' then ''text/css; charset=UTF-8''
      else if ext = ''.js'' then ''text/javascript; charset=UTF-8''
      else if ext = ''.json'' then ''application/json; charset=UTF-8''
      else if ext = ''.png'' then ''image/png''
      else if ext = ''.jpg'' then ''image/jpeg''
      else if ext = ''.jpeg'' then ''image/jpeg''
      else if ext = ''.svg'' then ''image/svg+xml''
      else ''application/octet-stream'')"
  by (simp add: mimeType_of_def initial_globals_def mimeTypes_def)

subsection \<open>The example environment, evaluated\<close>

lemma example_decode_index: "decodeURIComponent ''/index.html'' = Inr ''/index.html''"
  by (simp add: decodeURIComponent_def)

lemma example_join_index: "path_join [''/srv/app'', ''/index.html''] = ''/srv/app/index.html''"
  by (simp add: path_join_def path_normalize_def)

lemma example_ext_index: "toLowerCase (path_extname ''/srv/app/index.html'') = ''.html''"
  by (simp add: path_extname_def basename_of_def toLowerCase_def toLowerCase_char_def)

lemma example_handler_index:
  "fst (handler example_env \<lparr>url = Some ''/index.html''\<rparr> initial_globals) =
     [FsReadFile ''/srv/app/index.html'',
      WriteHead 200 [(''Content-Type'', ''text/html; charset=UTF-8'')],
      ResEnd ''<h1>Wise</h1>'']"
  using handler_found [of "\<lparr>url = Some ''/index.html''\<rparr>" "''/index.html''" example_env
      "''<h1>Wise</h1>''" initial_globals]
  by (simp add: urlPath_of_def example_decode_index example_join_index example_ext_index
      example_env_def example_files_def mimeType_of_def initial_globals_def mimeTypes_def)

lemma example_decode_style: "decodeURIComponent ''/style.CSS'' = Inr ''/style.CSS''"
  by (simp add: decodeURIComponent_def)

lemma example_join_style: "path_join [''/srv/app'', ''/style.CSS''] = ''/srv/app/style.CSS''"
  by (simp add: path_join_def path_normalize_def)

lemma example_ext_style: "toLowerCase (path_extname ''/srv/app/style.CSS'') = ''.css''"
  by (simp add: path_extname_def basename_of_def toLowerCase_def toLowerCase_char_def char_of_eq_iff)

lemma example_decode_malformed:
  "decodeURIComponent ''/%'' = Inl URIError"
  "decodeURIComponent ''/%zz'' = Inl URIError"
  "decodeURIComponent ''/%E0%A4%A'' = Inl URIError"
  by code_simp+

subsection \<open>The JSON endpoint\<close>

text \<open>
  C1. A request whose URL is exactly \<^verbatim>\<open>/api/data\<close> is answered with status 200, the
  header Content-Type \<^verbatim>\<open>application/json; charset=UTF-8\<close> and the serialization of
  \<open>data\<close>, an object of the eight fields problem, solution, coreFeatures, targetUsers,
  valueProposition, successMetrics, techStack and monetization, in this order. A request
  with any other URL never reaches the JSON responder: the handler either throws or
  calls \<^verbatim>\<open>fs.readFile\<close> first. (The state is the initial one at every request, see
  \<open>serve_globals\<close>.)
\<close>

theorem api_data_response:
  "(url req = Some ''/api/data'' \<longrightarrow>
      fst (handler e req initial_globals) =
        [WriteHead 200 [(''Content-Type'', ''application/json; charset=UTF-8'')],
         ResEnd (JSON_stringify data)])
   \<and> (url req \<noteq> Some ''/api/data'' \<longrightarrow>
        (\<exists>err. fst (handler e req initial_globals) = [Throw err]) \<or>
        (\<exists>p rest. fst (handler e req initial_globals) = FsReadFile p # rest))
   \<and> (\<exists>kvs. data = JObject kvs \<and>
        map fst kvs =
          [''problem'', ''solution'', ''coreFeatures'', ''targetUsers'',
           ''valueProposition'', ''successMetrics'', ''techStack'', ''monetization''])"
proof (intro conjI impI)
  assume "url req = Some ''/api/data''"
  then show "fst (handler e req initial_globals) =
        [WriteHead 200 [(''Content-Type'', ''application/json; charset=UTF-8'')],
         ResEnd (JSON_stringify data)]"
    by (simp add: handler_api initial_globals_def)
next
  assume other: "url req \<noteq> Some ''/api/data''"
  show "(\<exists>err. fst (handler e req initial_globals) = [Throw err]) \<or>
        (\<exists>p rest. fst (handler e req initial_globals) = FsReadFile p # rest)"
  proof (cases "decodeURIComponent (urlPath_of req)")
    case (Inl err)
    with other show ?thesis by (simp add: handler_throw)
  next
    case (Inr d)
    with other show ?thesis by (simp add: handler_def serveStatic_def Let_def)
  qed
next
  show "\<exists>kvs. data = JObject kvs \<and>
        map fst kvs =
          [''problem'', ''solution'', ''coreFeatures'', ''targetUsers'',
           ''valueProposition'', ''successMetrics'', ''techStack'', ''monetization'']"
    by (rule data_keys)
qed

theorem api_data_response_witness:
  "fst (handler example_env \<lparr>url = Some ''/api/data''\<rparr> initial_globals) =
     [WriteHead 200 [(''Content-Type'', ''application/json; charset=UTF-8'')],
      ResEnd (JSON_stringify data)]
   \<and> fst (handler example_env \<lparr>url = Some ''/api/data?x=1''\<rparr> initial_globals) \<noteq>
     [WriteHead 200 [(''Content-Type'', ''application/json; charset=UTF-8'')],
      ResEnd (JSON_stringify data)]"
  using api_data_response [of "\<lparr>url = Some ''/api/data''\<rparr>" example_env]
    api_data_response [of "\<lparr>url = Some ''/api/data?x=1''\<rparr>" example_env]
  by auto

subsection \<open>Static files\<close>

text \<open>
  C2. A request that is not for \<^verbatim>\<open>/api/data\<close>, whose URL decodes and whose path
  \<open>safePath\<close> is read with success, is answered with status 200, the bytes of the file
  as the body, and the Content-Type that \<open>mimeTypes\<close> gives for the lower-cased
  extension of the path: the eight entries of the table, and
  \<^verbatim>\<open>application/octet-stream\<close> for every other extension.
\<close>

theorem static_file_response:
  assumes "url req \<noteq> Some ''/api/data''"
    and "decodeURIComponent (urlPath_of req) = Inr decoded"
    and "safePath = path_join [dirname e, decoded]"
    and "CHR 0x00 \<notin> set safePath"
    and "files e safePath = Inr content"
  shows "fst (handler e req initial_globals) =
           [FsReadFile safePath,
            WriteHead 200
              [(''Content-Type'',
                mimeType_of initial_globals (toLowerCase (path_extname safePath)))],
            ResEnd content]
         \<and> mimeType_of initial_globals ''.html'' = ''text/html; charset=UTF-8''
         \<and> mimeType_of initial_globals ''.css'' = ''text/css; charset=UTF-8''
         \<and> mimeType_of initial_globals ''.js'' = ''text/javascript; charset=UTF-8''
         \<and> mimeType_of initial_globals ''.json'' = ''application/json; charset=UTF-8''
         \<and> mimeType_of initial_globals ''.png'' = ''image/png''
         \<and> mimeType_of initial_globals ''.jpg'' = ''image/jpeg''
         \<and> mimeType_of initial_globals ''.jpeg'' = ''image/jpeg''
         \<and> mimeType_of initial_globals ''.svg'' = ''image/svg+xml''
         \<and> (\<forall>ext. ext \<notin> set [''.html'', ''.css'', ''.js'', ''.json'', ''.png'', ''.jpg'',
                               ''.jpeg'', ''.svg''] \<longrightarrow>
                mimeType_of initial_globals ext = ''application/octet-stream'')"
proof -
  have "fst (handler e req initial_globals) =
           [FsReadFile safePath,
            WriteHead 200
              [(''Content-Type'',
                mimeType_of initial_globals (toLowerCase (path_extname safePath)))],
            ResEnd content]"
    using assms by (simp add: handler_found)
  moreover have "\<forall>ext. ext \<notin> set [''.html'', ''.css'', ''.js'', ''.json'', ''.png'', ''.jpg'',
                               ''.jpeg'', ''.svg''] \<longrightarrow>
                mimeType_of initial_globals ext = ''application/octet-stream''"
    by (simp add: mimeType_of_initial)
  ultimately show ?thesis
    by (simp add: mimeType_of_initial)
qed

theorem static_file_response_witness:
  "fst (handler example_env \<lparr>url = Some ''/style.CSS''\<rparr> initial_globals) =
     [FsReadFile ''/srv/app/style.CSS'',
      WriteHead 200 [(''Content-Type'', ''text/css; charset=UTF-8'')],
      ResEnd ''body {}'']"
proof -
  have "fst (handler example_env \<lparr>url = Some ''/style.CSS''\<rparr> initial_globals) =
           [FsReadFile ''/srv/app/style.CSS'',
            WriteHead 200
              [(''Content-Type'',
                mimeType_of initial_globals (toLowerCase (path_extname ''/srv/app/style.CSS'')))],
            ResEnd ''body {}'']"
    using static_file_response [of "\<lparr>url = Some ''/style.CSS''\<rparr>" "''/style.CSS''"
        "''/srv/app/style.CSS''" example_env "''body {}''"]
    by (simp add: urlPath_of_def example_decode_style example_join_style example_env_def
        example_files_def)
  then show ?thesis
    by (simp add: example_ext_style mimeType_of_initial)
qed

text \<open>
  C4. An absent or empty URL and the URL \<^verbatim>\<open>/\<close> are replaced by \<^verbatim>\<open>/index.html\<close>, and
  the handler does for them exactly what it does for a request of \<^verbatim>\<open>/index.html\<close>.
  Every other URL is passed on as it is, and its percent-decoded form is what is joined
  to the directory.
\<close>

theorem root_serves_index:
  "(url req = None \<or> url req = Some [] \<or> url req = Some ''/'' \<longrightarrow>
      urlPath_of req = ''/index.html'' \<and>
      handler e req g = handler e (req\<lparr>url := Some ''/index.html''\<rparr>) g)
   \<and> (\<forall>u. url req = Some u \<and> u \<noteq> [] \<and> u \<noteq> ''/'' \<longrightarrow> urlPath_of req = u)
   \<and> (\<forall>u decoded. url req = Some u \<and> u \<noteq> [] \<and> u \<noteq> ''/'' \<and> u \<noteq> ''/api/data'' \<and>
         decodeURIComponent u = Inr decoded \<longrightarrow>
         hd (fst (handler e req g)) = FsReadFile (path_join [dirname e, decoded]))"
proof (intro conjI impI allI)
  assume root: "url req = None \<or> url req = Some [] \<or> url req = Some ''/''"
  then show "urlPath_of req = ''/index.html''"
    by (rule urlPath_of_root)
  have "urlPath_of (req\<lparr>url := Some ''/index.html''\<rparr>) = ''/index.html''"
    by (simp add: urlPath_of_def)
  with root show "handler e req g = handler e (req\<lparr>url := Some ''/index.html''\<rparr>) g"
    by (intro handler_cong_urlPath) (auto simp: urlPath_of_root)
next
  fix u assume "url req = Some u \<and> u \<noteq> [] \<and> u \<noteq> ''/''"
  then show "urlPath_of req = u"
    by (simp add: urlPath_of_other)
next
  fix u decoded
  assume a: "url req = Some u \<and> u \<noteq> [] \<and> u \<noteq> ''/'' \<and> u \<noteq> ''/api/data'' \<and>
         decodeURIComponent u = Inr decoded"
  then have "urlPath_of req = u"
    by (simp add: urlPath_of_other)
  with a obtain rest where "fst (handler e req g) = FsReadFile (path_join [dirname e, decoded]) # rest"
    using handler_static [of req decoded e g] by auto
  then show "hd (fst (handler e req g)) = FsReadFile (path_join [dirname e, decoded])"
    by simp
qed

theorem root_serves_index_witness:
  "fst (handler example_env \<lparr>url = Some ''/''\<rparr> initial_globals) =
     [FsReadFile ''/srv/app/index.html'',
      WriteHead 200 [(''Content-Type'', ''text/html; charset=UTF-8'')],
      ResEnd ''<h1>Wise</h1>'']
   \<and> fst (handler example_env \<lparr>url = None\<rparr> initial_globals) =
        fst (handler example_env \<lparr>url = Some ''/index.html''\<rparr> initial_globals)
   \<and> urlPath_of \<lparr>url = Some ''/style.CSS''\<rparr> = ''/style.CSS''"
  using root_serves_index [of "\<lparr>url = Some ''/''\<rparr>" example_env initial_globals]
    root_serves_index [of "\<lparr>url = None\<rparr>" example_env initial_globals]
    root_serves_index [of "\<lparr>url = Some ''/style.CSS''\<rparr>" example_env initial_globals]
  by (simp add: example_handler_index)

subsection \<open>Malformed percent-encoding\<close>

text \<open>
  C5. The claim that every request ends in a 200 or a 404 answer fails: for the URLs
  \<^verbatim>\<open>/%\<close>, \<^verbatim>\<open>/%zz\<close> and \<^verbatim>\<open>/%E0%A4%A\<close> the call of decodeURIComponent throws URIError,
  nothing catches it, and the handler writes no answer at all.
\<close>

theorem malformed_percent_uncaught:
  "fst (handler e \<lparr>url = Some ''/%''\<rparr> g) = [Throw URIError]
   \<and> fst (handler e \<lparr>url = Some ''/%zz''\<rparr> g) = [Throw URIError]
   \<and> fst (handler e \<lparr>url = Some ''/%E0%A4%A''\<rparr> g) = [Throw URIError]"
  by (simp add: handler_throw urlPath_of_def example_decode_malformed)

subsection \<open>No state\<close>








subsection \<open>The port\<close>

lemma find_unique:
  assumes "x \<in> set xs" and "P x" and "\<forall>y \<in> set xs. P y \<longrightarrow> y = x"
  shows "List.find P xs = Some x"
  using assms
proof (induction xs)
  case Nil
  then show ?case by simp
next
  case (Cons a xs)
  show ?case
  proof (cases "P a")
    case True
    with Cons.prems(3) have "a = x" by simp
    with True show ?thesis by simp
  next
    case False
    with Cons.prems(1,2) have "x \<in> set xs" by auto
    moreover from Cons.prems(3) have "\<forall>y \<in> set xs. P y \<longrightarrow> y = x" by simp
    ultimately have "List.find P xs = Some x"
      using Cons.IH Cons.prems(2) by blast
    with False show ?thesis by simp
  qed
qed

lemma StrWhiteSpaceChar_length:
  "w \<in> set StrWhiteSpaceChar \<Longrightarrow>
   w \<noteq> [] \<and> length w = max 1 (leading_ones (of_char (hd w)))"
  unfolding StrWhiteSpaceChar_def by (auto simp: leading_ones_def)

lemma leading_white_space_prefix:
  assumes "w \<in> set StrWhiteSpaceChar"
  shows "leading_white_space (w @ s) = Some w"
  unfolding leading_white_space_def
proof (rule find_unique [OF assms])
  show "take (length w) (w @ s) = w"
    by simp
  show "\<forall>y \<in> set StrWhiteSpaceChar. take (length y) (w @ s) = y \<longrightarrow> y = w"
  proof (intro ballI impI)
    fix y assume y: "y \<in> set StrWhiteSpaceChar" and eq: "take (length y) (w @ s) = y"
    note lw = StrWhiteSpaceChar_length [OF assms] and ly = StrWhiteSpaceChar_length [OF y]
    from lw ly obtain c w' d y' where w: "w = c # w'" and y': "y = d # y'"
      by (cases w; cases y) auto
    from eq have "d = c"
      unfolding w y' by simp
    with lw ly have "length y = length w"
      unfolding w y' by simp
    with eq show "y = w"
      by simp
  qed
qed

lemma TrimStart_white_space:
  assumes "w \<in> set StrWhiteSpaceChar"
  shows "TrimStart (w @ s) = TrimStart s"
  using leading_white_space_prefix [OF assms, of s]
  by (simp add: TrimStart.simps [of "w @ s"])

lemma TrimStart_no_white_space:
  assumes "\<forall>w \<in> set StrWhiteSpaceChar. take (length w) s \<noteq> w"
  shows "TrimStart s = s"
proof -
  from assms have "leading_white_space s = None"
    by (simp add: leading_white_space_def find_None_iff)
  then show ?thesis
    by (simp add: TrimStart.simps [of s])
qed

lemma parseInt10_NaN:
  assumes "strip_sign (TrimStart s) = [] \<or> \<not> is_digit (hd (strip_sign (TrimStart s)))"
  shows "parseInt10 s = NaN"
proof -
  from assms have "takeWhile is_digit (strip_sign (TrimStart s)) = []"
    by (cases "strip_sign (TrimStart s)") auto
  then show ?thesis
    unfolding parseInt10_def Let_def by simp
qed

lemma parseInt10_digits:
  assumes "strip_sign (TrimStart s) = ds @ rest"
    and "ds \<noteq> []" and "\<forall>c \<in> set ds. is_digit c" and "rest = [] \<or> \<not> is_digit (hd rest)"
  shows "parseInt10 s = number_of_int (sign_of (TrimStart s) * digits_value ds)"
proof -
  have "takeWhile is_digit rest = []"
    using assms(4) by (cases rest) auto
  with assms(3) have "takeWhile is_digit (ds @ rest) = ds"
    by simp
  then show ?thesis
    unfolding parseInt10_def Let_def assms(1) using assms(2) by simp
qed

lemma number_of_int_not_NaN: "number_of_int n \<noteq> NaN"
  by (simp add: number_of_int_def split: option.splits)

lemma round_to_double_2_53: "round_to_double (2 ^ 53) = Some (2 ^ 53)"
  by code_simp

lemma number_of_int_exact:
  assumes "\<bar>n\<bar> \<le> 2 ^ 53"
  shows "number_of_int n = Finite n"
proof (cases "\<bar>n\<bar> = 2 ^ 53")
  case True
  then have "round_to_double \<bar>n\<bar> = Some \<bar>n\<bar>"
    using round_to_double_2_53 by simp
  then show ?thesis
    by (simp add: number_of_int_def)
next
  case False
  with assms have "\<bar>n\<bar> < 2 ^ 53"
    by simp
  then have "round_to_double \<bar>n\<bar> = Some \<bar>n\<bar>"
    by (simp add: round_to_double_def)
  then show ?thesis
    by (simp add: number_of_int_def)
qed

lemma port_of_number:
  assumes "parseInt10 (case env_PORT e of None \<Rightarrow> ''undefined'' | Some s \<Rightarrow> s) = x"
    and "x \<noteq> NaN"
  shows "port e = (if x = Finite 0 then Finite 3000 else x)"
  using assms by (cases x) (simp_all add: port_def)

lemma parseInt10_undefined: "parseInt10 ''undefined'' = NaN"
  by code_simp

lemma parseInt10_8080: "parseInt10 ''8080'' = Finite 8080"
  by code_simp

lemma is_digit_iff: "is_digit c = (c \<in> set ''0123456789'')"
proof -
  have "is_digit (char_of n) = (char_of n \<in> set ''0123456789'')" if "n < 256" for n :: nat
  proof -
    from that have tb: "take_bit 8 n = n"
      by (simp add: take_bit_nat_eq_self)
    from that have m: "n mod 256 = n"
      by simp
    have "n < 48 \<or> n = 48 \<or> n = 49 \<or> n = 50 \<or> n = 51 \<or> n = 52 \<or> n = 53 \<or> n = 54 \<or>
        n = 55 \<or> n = 56 \<or> n = 57 \<or> 57 < n"
      by arith
    then show ?thesis
      by (elim disjE) (auto simp: is_digit_def char_of_eq_iff tb m)
  qed
  from this [of "of_char c"] show ?thesis
    by simp
qed

text \<open>
  C7, as amended. With \<^verbatim>\<open>PORT=8080\<close> the server listens on 8080, and with \<^verbatim>\<open>PORT\<close>
  unset on 3000. Otherwise leading white space and then one sign, if there is one, are
  removed from the text. When what remains is empty or does not start with a decimal
  digit, the server listens on 3000. When it starts with decimal digits, these are read up
  to the first other character, the number is negated after a minus sign and rounded to a
  double (which changes nothing up to \<open>2 ^ 53\<close>), and the port is this Number, or 3000
  when it is 0. The last conjuncts say what white space, sign, digit and the value of the
  digits are.
\<close>

theorem port_selection:
  "(env_PORT e = Some ''8080'' \<longrightarrow> port e = Finite 8080 \<and> server_listen e = Inr 8080)
   \<and> (env_PORT e = None \<longrightarrow> port e = Finite 3000 \<and> server_listen e = Inr 3000)
   \<and> (\<forall>s. env_PORT e = Some s \<and>
         (strip_sign (TrimStart s) = [] \<or> \<not> is_digit (hd (strip_sign (TrimStart s)))) \<longrightarrow>
         port e = Finite 3000 \<and> server_listen e = Inr 3000)
   \<and> (\<forall>s ds rest. env_PORT e = Some s \<and> strip_sign (TrimStart s) = ds @ rest \<and> ds \<noteq> [] \<and>
         (\<forall>c \<in> set ds. is_digit c) \<and> (rest = [] \<or> \<not> is_digit (hd rest)) \<longrightarrow>
         port e =
           (if number_of_int (sign_of (TrimStart s) * digits_value ds) = Finite 0 then Finite 3000
            else number_of_int (sign_of (TrimStart s) * digits_value ds)))
   \<and> (\<forall>n. \<bar>n\<bar> \<le> 2 ^ 53 \<longrightarrow> number_of_int n = Finite n)
   \<and> (\<forall>w s. w \<in> set StrWhiteSpaceChar \<longrightarrow> TrimStart (w @ s) = TrimStart s)
   \<and> (\<forall>s. (\<forall>w \<in> set StrWhiteSpaceChar. take (length w) s \<noteq> w) \<longrightarrow> TrimStart s = s)
   \<and> (\<forall>t. strip_sign (CHR ''+'' # t) = t \<and> strip_sign (CHR ''-'' # t) = t \<and>
         sign_of (CHR ''+'' # t) = 1 \<and> sign_of (CHR ''-'' # t) = - 1)
   \<and> (\<forall>t. (t = [] \<or> (hd t \<noteq> CHR ''+'' \<and> hd t \<noteq> CHR ''-'')) \<longrightarrow>
         strip_sign t = t \<and> sign_of t = 1)
   \<and> (\<forall>c. is_digit c = (c \<in> set ''0123456789''))
   \<and> digits_value [] = 0
   \<and> (\<forall>ds d. digits_value (ds @ [d]) = 10 * digits_value ds + (int (of_char d) - 48))"
proof (intro conjI impI allI)
  assume "env_PORT e = Some ''8080''"
  then have "port e = Finite 8080"
    by (simp add: port_def parseInt10_8080)
  then show "port e = Finite 8080" "server_listen e = Inr 8080"
    by (simp_all add: server_listen_def)
next
  assume "env_PORT e = None"
  then have "port e = Finite 3000"
    by (simp add: port_def parseInt10_undefined)
  then show "port e = Finite 3000" "server_listen e = Inr 3000"
    by (simp_all add: server_listen_def)
next
  fix s
  assume a: "env_PORT e = Some s \<and>
         (strip_sign (TrimStart s) = [] \<or> \<not> is_digit (hd (strip_sign (TrimStart s))))"
  then have "parseInt10 s = NaN"
    using parseInt10_NaN [of s] by blast
  with a have "port e = Finite 3000"
    by (simp add: port_def)
  then show "port e = Finite 3000" "server_listen e = Inr 3000"
    by (simp_all add: server_listen_def)
next
  fix s ds rest
  assume a: "env_PORT e = Some s \<and> strip_sign (TrimStart s) = ds @ rest \<and> ds \<noteq> [] \<and>
         (\<forall>c \<in> set ds. is_digit c) \<and> (rest = [] \<or> \<not> is_digit (hd rest))"
  let ?x = "number_of_int (sign_of (TrimStart s) * digits_value ds)"
  from a have "parseInt10 s = ?x"
    using parseInt10_digits [of s ds rest] by blast
  with a have "parseInt10 (case env_PORT e of None \<Rightarrow> ''undefined'' | Some s \<Rightarrow> s) = ?x"
    by simp
  then show "port e = (if ?x = Finite 0 then Finite 3000 else ?x)"
    by (rule port_of_number) (rule number_of_int_not_NaN)
next
  fix n :: int assume "\<bar>n\<bar> \<le> 2 ^ 53"
  then show "number_of_int n = Finite n"
    by (rule number_of_int_exact)
next
  fix w s assume "w \<in> set StrWhiteSpaceChar"
  then show "TrimStart (w @ s) = TrimStart s"
    by (rule TrimStart_white_space)
next
  fix s assume "\<forall>w \<in> set StrWhiteSpaceChar. take (length w) s \<noteq> w"
  then show "TrimStart s = s"
    by (rule TrimStart_no_white_space)
next
  fix t
  show "strip_sign (CHR ''+'' # t) = t" "strip_sign (CHR ''-'' # t) = t"
    "sign_of (CHR ''+'' # t) = 1" "sign_of (CHR ''-'' # t) = - 1"
    by (simp_all add: strip_sign_def sign_of_def)
next
  fix t :: string assume "t = [] \<or> (hd t \<noteq> CHR ''+'' \<and> hd t \<noteq> CHR ''-'')"
  then show "strip_sign t = t" "sign_of t = 1"
    by (auto simp: strip_sign_def sign_of_def)
next
  fix c
  show "is_digit c = (c \<in> set ''0123456789'')"
    by (rule is_digit_iff)
next
  show "digits_value [] = 0"
    by (simp add: digits_value_def)
next
  fix ds d
  show "digits_value (ds @ [d]) = 10 * digits_value ds + (int (of_char d) - 48)"
    by (simp add: digits_value_def)
qed


lemma example_port_texts:
  "strip_sign (TrimStart ''abc80'') = ''abc80''"
  "strip_sign (TrimStart '' -42'') = ''42''"
  "sign_of (TrimStart '' -42'') = - 1"
  "strip_sign (TrimStart ''9007199254740993'') = ''9007199254740993''"
  "sign_of (TrimStart ''9007199254740993'') = 1"
  "number_of_int (- digits_value ''42'') = Finite (- 42)"
  "number_of_int (digits_value ''9007199254740993'') = Finite 9007199254740992"
  "strip_sign (TrimStart ''9007199254740995'') = ''9007199254740995''"
  "sign_of (TrimStart ''9007199254740995'') = 1"
  "number_of_int (digits_value ''9007199254740995'') = Finite 9007199254740996"
  by code_simp+

theorem port_selection_witness:
  "port (example_env\<lparr>env_PORT := Some ''8080''\<rparr>) = Finite 8080
   \<and> port example_env = Finite 3000
   \<and> port (example_env\<lparr>env_PORT := Some ''abc80''\<rparr>) = Finite 3000
   \<and> port (example_env\<lparr>env_PORT := Some '' -42''\<rparr>) = Finite (- 42)
   \<and> port (example_env\<lparr>env_PORT := Some ''9007199254740993''\<rparr>) = Finite 9007199254740992
   \<and> port (example_env\<lparr>env_PORT := Some ''9007199254740995''\<rparr>) = Finite 9007199254740996"
proof -
  have a: "port (example_env\<lparr>env_PORT := Some ''8080''\<rparr>) = Finite 8080"
    using port_selection [of "example_env\<lparr>env_PORT := Some ''8080''\<rparr>", THEN conjunct1]
    by simp
  have b: "port example_env = Finite 3000"
    using port_selection [of example_env, THEN conjunct2, THEN conjunct1]
    by (simp add: example_env_def)
  have c: "port (example_env\<lparr>env_PORT := Some ''abc80''\<rparr>) = Finite 3000"
    using port_selection [of "example_env\<lparr>env_PORT := Some ''abc80''\<rparr>",
        THEN conjunct2, THEN conjunct2, THEN conjunct1, rule_format, of "''abc80''"]
    by (simp add: example_port_texts is_digit_def)
  have d: "port (example_env\<lparr>env_PORT := Some '' -42''\<rparr>) = Finite (- 42)"
    using port_selection [of "example_env\<lparr>env_PORT := Some '' -42''\<rparr>",
        THEN conjunct2, THEN conjunct2, THEN conjunct2, THEN conjunct1, rule_format,
        of "'' -42''" "''42''" "[]"]
    by (simp add: example_port_texts is_digit_def)
  have f: "port (example_env\<lparr>env_PORT := Some ''9007199254740993''\<rparr>) =
      Finite 9007199254740992"
    using port_selection [of "example_env\<lparr>env_PORT := Some ''9007199254740993''\<rparr>",
        THEN conjunct2, THEN conjunct2, THEN conjunct2, THEN conjunct1, rule_format,
        of "''9007199254740993''" "''9007199254740993''" "[]"]
    by (simp add: example_port_texts is_digit_def)
  have h: "port (example_env\<lparr>env_PORT := Some ''9007199254740995''\<rparr>) =
      Finite 9007199254740996"
    using port_selection [of "example_env\<lparr>env_PORT := Some ''9007199254740995''\<rparr>",
        THEN conjunct2, THEN conjunct2, THEN conjunct2, THEN conjunct1, rule_format,
        of "''9007199254740995''" "''9007199254740995''" "[]"]
    by (simp add: example_port_texts is_digit_def)
  from a b c d f h show ?thesis by simp
qed

lemma example_port_prefix: "parseInt10 ''80abc'' = Finite 80"
  by code_simp

text \<open>
  C7 as stated fails: \<^verbatim>\<open>80abc\<close> is not a number, and the server listens on 80, not
  on 3000.
\<close>

theorem port_prefix_counterexample:
  "\<not> list_all is_digit ''80abc''
   \<and> port (example_env\<lparr>env_PORT := Some ''80abc''\<rparr>) = Finite 80
   \<and> server_listen (example_env\<lparr>env_PORT := Some ''80abc''\<rparr>) = Inr 80"
  by (simp add: port_def server_listen_def is_digit_def example_port_prefix)

section \<open>Paths and query strings\<close>

subsection \<open>Splitting and joining paths\<close>

lemma split_on_not_Nil: "split_on sep s \<noteq> []"
  by (induction s) (auto split: list.splits)

lemma split_on_no_sep: "sep \<notin> set b \<Longrightarrow> split_on sep b = [b]"
  by (induction b) auto

lemma split_on_append_no_sep:
  "sep \<notin> set b \<Longrightarrow>
   split_on sep (a @ b) = butlast (split_on sep a) @ [last (split_on sep a) @ b]"
proof (induction a)
  case Nil
  then show ?case by (simp add: split_on_no_sep)
next
  case (Cons c a)
  then show ?case
    using split_on_not_Nil [of sep a]
    by (cases "split_on sep a") (auto split: list.splits)
qed

lemma normalizeString_append:
  "normalizeString f res (xs @ ys) = normalizeString f (normalizeString f res xs) ys"
  by (induction xs arbitrary: res) auto

lemma normalizeString_last_segment:
  assumes "seg \<noteq> []" and "seg \<noteq> ''.''" and "seg \<noteq> ''..''"
  shows "normalizeString f res (xs @ [seg]) = normalizeString f res xs @ [seg]"
  using assms by (simp add: normalizeString_append)

lemma intercalate_last:
  "xs \<noteq> [] \<Longrightarrow> set (last xs) \<subseteq> set (intercalate sep xs)"
  by (induction sep xs rule: intercalate.induct) auto

lemma path_normalize_keeps_last_segment:
  assumes "c \<noteq> CHR ''/''" and "c \<noteq> CHR ''.''" and "CHR ''/'' \<notin> set b"
  shows "c \<in> set (path_normalize (a @ c # b))"
proof -
  let ?p = "a @ c # b"
  let ?segs = "split_on CHR ''/'' a"
  let ?seg = "last ?segs @ c # b"
  have seg: "?seg \<noteq> []" "?seg \<noteq> ''.''" "?seg \<noteq> ''..''"
    using assms(2) by (auto simp: append_eq_Cons_conv Cons_eq_append_conv)
  have "CHR ''/'' \<notin> set (c # b)"
    using assms by simp
  then have "split_on CHR ''/'' ?p = butlast ?segs @ [?seg]"
    by (rule split_on_append_no_sep)
  then have norm: "normalizeString f [] (split_on CHR ''/'' ?p)
      = normalizeString f [] (butlast ?segs) @ [?seg]" for f
    using seg by (simp add: normalizeString_last_segment)
  define q where
    "q = intercalate ''/'' (normalizeString (\<not> (hd ?p = CHR ''/'')) [] (split_on CHR ''/'' ?p))"
  have "c \<in> set q"
    using intercalate_last
      [of "normalizeString (\<not> (hd ?p = CHR ''/'')) [] (butlast ?segs) @ [?seg]" "''/''"]
    by (auto simp: norm q_def)
  then have "q \<noteq> []"
    by auto
  have "path_normalize ?p =
      (if hd ?p = CHR ''/'' then ''/'' else []) @ q @ (if last ?p = CHR ''/'' then ''/'' else [])"
    using \<open>q \<noteq> []\<close> unfolding path_normalize_def Let_def q_def by simp
  with \<open>c \<in> set q\<close> show ?thesis
    by simp
qed


subsection \<open>Decoding across a question mark\<close>

lemma hexval_question: "hexval CHR ''?'' = None"
  by (simp add: hexval_def)

lemma ParseHexOctet_question [simp]:
  "ParseHexOctet CHR ''?'' b = None" "ParseHexOctet a CHR ''?'' = None"
  by (simp_all add: ParseHexOctet_def hexval_question split: option.splits)






subsection \<open>A path with a NUL character\<close>

lemma example_decode_nul: "decodeURIComponent ''/%00'' = Inr [CHR ''/'', CHR 0x00]"
  by code_simp

lemma path_join_keeps_nul: "CHR 0x00 \<in> set (path_join [dir, [CHR ''/'', CHR 0x00]])"
proof (cases "dir = []")
  case True
  then show ?thesis
    using path_normalize_keeps_last_segment [of "CHR 0x00" "[]" "''/''"]
    by (simp add: path_join_def)
next
  case False
  then show ?thesis
    using path_normalize_keeps_last_segment [of "CHR 0x00" "[]" "dir @ ''/'' @ ''/''"]
    by (simp add: path_join_def)
qed

text \<open>
  C3. An error that \<^verbatim>\<open>fs.readFile\<close> hands to the callback is answered with status 404
  and the body \<^verbatim>\<open>404 Not Found\<close>, whatever the error (\<open>handler_not_found\<close>). But the
  claim that every failed read ends so fails: the URL \<^verbatim>\<open>/%00\<close> decodes to a slash and a
  NUL character, \<^verbatim>\<open>fs.readFile\<close> refuses the path by throwing, nothing catches the
  exception, and the handler writes no answer.
\<close>

theorem nul_path_uncaught:
  "fst (handler e \<lparr>url = Some ''/%00''\<rparr> g) =
     [FsReadFile (path_join [dirname e, [CHR ''/'', CHR 0x00]]), Throw InvalidArgValue]"
proof -
  let ?req = "\<lparr>url = Some ''/%00''\<rparr>"
  have "url ?req \<noteq> Some ''/api/data''"
    and "decodeURIComponent (urlPath_of ?req) = Inr [CHR ''/'', CHR 0x00]"
    by (simp_all add: urlPath_of_def example_decode_nul)
  from handler_nul [OF this path_join_keeps_nul, of e g] show ?thesis
    by simp
qed

subsection \<open>Directory traversal\<close>

lemma example_decode_traversal:
  "decodeURIComponent ''/%2e%2e/%2e%2e/etc/passwd'' = Inr ''/../../etc/passwd''"
  by code_simp

lemma example_join_traversal:
  "path_join [''/srv/app'', ''/../../etc/passwd''] = ''/etc/passwd''"
  by (simp add: path_join_def path_normalize_def)

lemma example_ext_passwd: "toLowerCase (path_extname ''/etc/passwd'') = []"
  by (simp add: path_extname_def basename_of_def toLowerCase_def)

text \<open>
  C8. The path is the join of the directory with the decoded URL and nothing checks where
  it lies. With the script in \<^verbatim>\<open>/srv/app\<close>, the URL \<^verbatim>\<open>/%2e%2e/%2e%2e/etc/passwd\<close>
  decodes to \<^verbatim>\<open>/../../etc/passwd\<close>, the join collapses it to \<^verbatim>\<open>/etc/passwd\<close>, which is
  outside \<^verbatim>\<open>/srv/app\<close>, and that is the file the handler reads; when the read succeeds
  its content is sent with status 200.
\<close>

theorem traversal_leaves_root:
  assumes "dirname e = ''/srv/app''"
  shows "hd (fst (handler e \<lparr>url = Some ''/%2e%2e/%2e%2e/etc/passwd''\<rparr> initial_globals)) =
           FsReadFile ''/etc/passwd''
         \<and> \<not> inside_root (dirname e) ''/etc/passwd''
         \<and> (\<forall>content. files e ''/etc/passwd'' = Inr content \<longrightarrow>
              fst (handler e \<lparr>url = Some ''/%2e%2e/%2e%2e/etc/passwd''\<rparr> initial_globals) =
                [FsReadFile ''/etc/passwd'',
                 WriteHead 200 [(''Content-Type'', ''application/octet-stream'')],
                 ResEnd content])"
proof -
  let ?req = "\<lparr>url = Some ''/%2e%2e/%2e%2e/etc/passwd''\<rparr>"
  have api: "url ?req \<noteq> Some ''/api/data''"
    by simp
  have dec: "decodeURIComponent (urlPath_of ?req) = Inr ''/../../etc/passwd''"
    by (simp add: urlPath_of_def example_decode_traversal)
  have join: "path_join [dirname e, ''/../../etc/passwd''] = ''/etc/passwd''"
    by (simp add: assms example_join_traversal)
  obtain rest where "fst (handler e ?req initial_globals) = FsReadFile ''/etc/passwd'' # rest"
    using handler_static [OF api dec, of e initial_globals] by (auto simp: join)
  then have first: "hd (fst (handler e ?req initial_globals)) = FsReadFile ''/etc/passwd''"
    by simp
  have outside: "\<not> inside_root (dirname e) ''/etc/passwd''"
    by (simp add: inside_root_def assms)
  have served: "fst (handler e ?req initial_globals) =
                [FsReadFile ''/etc/passwd'',
                 WriteHead 200 [(''Content-Type'', ''application/octet-stream'')],
                 ResEnd content]" if "files e ''/etc/passwd'' = Inr content" for content
    using handler_found [OF api dec, of e content initial_globals] that
    by (simp add: join example_ext_passwd mimeType_of_initial)
  from first outside served show ?thesis
    by blast
qed

theorem traversal_leaves_root_witness:
  "fst (handler example_env \<lparr>url = Some ''/%2e%2e/%2e%2e/etc/passwd''\<rparr> initial_globals) =
     [FsReadFile ''/etc/passwd'',
      WriteHead 200 [(''Content-Type'', ''application/octet-stream'')],
      ResEnd ''root:x:0:0'']
   \<and> \<not> inside_root ''/srv/app'' ''/etc/passwd''"
  using traversal_leaves_root [of example_env]
  by (simp add: example_env_def example_files_def)

subsection \<open>The directory of the static files\<close>

text \<open>
  C9, as amended. For a request that is not for \<^verbatim>\<open>/api/data\<close> and whose URL decodes,
  the one path handed to \<^verbatim>\<open>fs.readFile\<close> is \<^verbatim>\<open>__dirname\<close>, the directory that holds
  server.js, joined with the decoded URL path. The working directory of the process plays
  no part: changing it changes nothing of what the handler does.
\<close>

theorem file_path_from_dirname:
  assumes "url req \<noteq> Some ''/api/data''"
    and "decodeURIComponent (urlPath_of req) = Inr decoded"
  shows "(\<exists>rest. fst (handler e req g) = FsReadFile (path_join [dirname e, decoded]) # rest
            \<and> (\<forall>p. FsReadFile p \<notin> set rest))
         \<and> handler (e\<lparr>cwd := c\<rparr>) req g = handler e req g"
proof -
  have "handler (e\<lparr>cwd := c\<rparr>) req g = handler e req g"
    by (simp add: handler_def serveStatic_def Let_def split: sum.splits)
  with handler_static [OF assms, of e g] show ?thesis
    by blast
qed

theorem file_path_from_dirname_witness:
  "hd (fst (handler example_env \<lparr>url = Some ''/style.CSS''\<rparr> initial_globals)) =
     FsReadFile ''/srv/app/style.CSS''
   \<and> handler (example_env\<lparr>cwd := ''/home/wise''\<rparr>) \<lparr>url = Some ''/style.CSS''\<rparr> initial_globals =
       handler example_env \<lparr>url = Some ''/style.CSS''\<rparr> initial_globals"
proof -
  have "url \<lparr>url = Some ''/style.CSS''\<rparr> \<noteq> Some ''/api/data''"
    and "decodeURIComponent (urlPath_of \<lparr>url = Some ''/style.CSS''\<rparr>) = Inr ''/style.CSS''"
    by (simp_all add: urlPath_of_def example_decode_style)
  from file_path_from_dirname [OF this, of example_env initial_globals "''/home/wise''"]
  show ?thesis
    by (auto simp: example_env_def example_join_style)
qed

text \<open>
  C9 as stated fails: with the script in \<^verbatim>\<open>/srv/app\<close> and the process started in
  \<^verbatim>\<open>/tmp\<close>, a request of \<^verbatim>\<open>/index.html\<close> reads \<^verbatim>\<open>/srv/app/index.html\<close> and never
  \<^verbatim>\<open>/tmp/index.html\<close>.
\<close>

theorem working_directory_counterexample:
  "cwd example_env = ''/tmp''
   \<and> path_join [cwd example_env, ''/index.html''] = ''/tmp/index.html''
   \<and> fst (handler example_env \<lparr>url = Some ''/index.html''\<rparr> initial_globals) =
       [FsReadFile ''/srv/app/index.html'',
        WriteHead 200 [(''Content-Type'', ''text/html; charset=UTF-8'')],
        ResEnd ''<h1>Wise</h1>'']
   \<and> FsReadFile (path_join [cwd example_env, ''/index.html'']) \<notin>
       set (fst (handler example_env \<lparr>url = Some ''/index.html''\<rparr> initial_globals))"
proof -
  have "path_join [''/tmp'', ''/index.html''] = ''/tmp/index.html''"
    by (simp add: path_join_def path_normalize_def)
  then show ?thesis
    by (simp add: example_handler_index) (simp add: example_env_def)
qed

subsection \<open>Query strings\<close>









end
